theory Spec2Isabelle
  imports Complex_Main
begin

section \<open>JavaScript values\<close>

text \<open>
  The commands of \<^verbatim>\<open>lib/commands/general.js\<close> receive untyped JavaScript values and
  coerce them. The values the commands can tell apart are modelled here.

  A Number is \<open>NaN\<close>, an infinity, or a finite double, held as the rational it
  denotes; every arithmetic result is rounded to the nearest double by \<open>fl\<close> below.
  The two zeros are one value: they are \<^verbatim>\<open>===\<close>, compare alike and serialise alike.
  A string is a sequence of code units below 256. An object is the list of its own
  enumerable properties, in order, with distinct keys; it has no \<^verbatim>\<open>valueOf\<close> or
  \<^verbatim>\<open>toString\<close> of its own. An array is the list of its elements.
\<close>

datatype jsnum = NaN | NegInf | Fin rat | PosInf

datatype jsval =
    JUndefined
  | JNull
  | JBool bool
  | JNum jsnum
  | JStr string
  | JObj "(string \<times> jsval) list"
  | JArr "jsval list"

subsection \<open>Rounding to a double\<close>

text \<open>The number of binary digits of a positive integer, and zero otherwise.\<close>

function bit_length :: "int \<Rightarrow> int" where
  "bit_length n = (if n \<le> 0 then 0 else 1 + bit_length (n div 2))"
  by pat_completeness auto
termination
  by (relation "measure nat") auto

declare bit_length.simps [simp del]

text \<open>\<open>fast_pow b n\<close> is \<open>b\<close> to the power \<open>n\<close>, by squaring.\<close>

fun fast_pow :: "rat \<Rightarrow> nat \<Rightarrow> rat" where
  "fast_pow b n =
     (if n = 0 then 1
      else (let h = fast_pow b (n div 2) in if even n then h * h else b * h * h))"

declare fast_pow.simps [simp del]

text \<open>\<open>pow2 k\<close> is two to the power \<open>k\<close>, for an integer \<open>k\<close>.\<close>

definition pow2 :: "int \<Rightarrow> rat" where
  "pow2 k = (if 0 \<le> k then fast_pow 2 (nat k) else 1 / fast_pow 2 (nat (- k)))"

text \<open>The binary exponent of a positive rational \<open>a\<close>: the \<open>e\<close> with \<open>2^e \<le> a < 2^(e+1)\<close>.\<close>

definition binary_exponent :: "rat \<Rightarrow> int" where
  "binary_exponent a =
     (if 1 \<le> a then bit_length \<lfloor>a\<rfloor> - 1
      else - bit_length (\<lceil>1 / a\<rceil> - 1))"

text \<open>The nearest integer, a tie going to the even one.\<close>

definition round_half_even :: "rat \<Rightarrow> int" where
  "round_half_even x =
     (let f = \<lfloor>x\<rfloor>; r = x - of_int f
      in if r < 1 / 2 then f else if 1 / 2 < r then f + 1 else if even f then f else f + 1)"

text \<open>
  The double nearest to a rational (IEEE-754 binary64, round to nearest, ties to even):
  53 significant bits, the least exponent of the last place \<open>-1074\<close>, and an
  infinity when the rounded magnitude reaches \<open>2^1024\<close>, that is, when the exponent is
  1024 or more, or is 1023 and the significand rounds up to \<open>2^53 = 9007199254740992\<close>.
  A magnitude below half the least subnormal becomes zero.
\<close>

definition fl :: "rat \<Rightarrow> jsnum" where
  "fl q =
     (if q = 0 then Fin 0
      else
        (let a = \<bar>q\<bar>;
             e = binary_exponent a;
             p = max (e - 52) (- 1074);
             m = round_half_even (a / pow2 p)
         in if 1024 \<le> e \<or> (e = 1023 \<and> m = 9007199254740992) then
              (if q < 0 then NegInf else PosInf)
            else Fin ((if q < 0 then - 1 else 1) * of_int m * pow2 p)))"

subsection \<open>Number operators\<close>

text \<open>\<^verbatim>\<open>a <= b\<close> on Numbers: false whenever an operand is \<open>NaN\<close>.\<close>

fun num_le :: "jsnum \<Rightarrow> jsnum \<Rightarrow> bool" where
  "num_le NaN _ = False"
| "num_le _ NaN = False"
| "num_le NegInf _ = True"
| "num_le _ PosInf = True"
| "num_le (Fin a) (Fin b) = (a \<le> b)"
| "num_le (Fin a) NegInf = False"
| "num_le PosInf (Fin b) = False"
| "num_le PosInf NegInf = False"

text \<open>\<^verbatim>\<open>Math.abs\<close>.\<close>

fun num_abs :: "jsnum \<Rightarrow> jsnum" where
  "num_abs NaN = NaN"
| "num_abs NegInf = PosInf"
| "num_abs PosInf = PosInf"
| "num_abs (Fin a) = Fin \<bar>a\<bar>"

text \<open>The sign of a Number that is not \<open>NaN\<close>, as \<open>-1\<close>, \<open>0\<close> or \<open>1\<close>.\<close>

fun num_sgn :: "jsnum \<Rightarrow> int" where
  "num_sgn NaN = 0"
| "num_sgn NegInf = - 1"
| "num_sgn PosInf = 1"
| "num_sgn (Fin a) = (if a < 0 then - 1 else if a = 0 then 0 else 1)"

definition signed_inf :: "int \<Rightarrow> jsnum" where
  "signed_inf s = (if s < 0 then NegInf else PosInf)"

text \<open>\<^verbatim>\<open>a * b\<close>: an infinity times zero is \<open>NaN\<close>.\<close>

fun num_mul :: "jsnum \<Rightarrow> jsnum \<Rightarrow> jsnum" where
  "num_mul NaN _ = NaN"
| "num_mul _ NaN = NaN"
| "num_mul (Fin a) (Fin b) = fl (a * b)"
| "num_mul a b =
     (if num_sgn a * num_sgn b = 0 then NaN else signed_inf (num_sgn a * num_sgn b))"

text \<open>
  \<^verbatim>\<open>a / b\<close>: infinity over infinity and zero over zero are \<open>NaN\<close>; a finite value over an
  infinity is zero; a non-zero value over zero is an infinity (the zero of the model is
  the positive one).
\<close>

fun num_div :: "jsnum \<Rightarrow> jsnum \<Rightarrow> jsnum" where
  "num_div NaN _ = NaN"
| "num_div _ NaN = NaN"
| "num_div (Fin a) (Fin b) =
     (if b = 0 then (if a = 0 then NaN else signed_inf (num_sgn (Fin a))) else fl (a / b))"
| "num_div (Fin a) _ = Fin 0"
| "num_div a (Fin b) = signed_inf (num_sgn a * (if b < 0 then - 1 else 1))"
| "num_div _ _ = NaN"

text \<open>\<^verbatim>\<open>a - b\<close>: the difference of two equal infinities is \<open>NaN\<close>.\<close>

fun num_sub :: "jsnum \<Rightarrow> jsnum \<Rightarrow> jsnum" where
  "num_sub NaN _ = NaN"
| "num_sub _ NaN = NaN"
| "num_sub (Fin a) (Fin b) = fl (a - b)"
| "num_sub PosInf PosInf = NaN"
| "num_sub NegInf NegInf = NaN"
| "num_sub PosInf _ = PosInf"
| "num_sub NegInf _ = NegInf"
| "num_sub _ PosInf = NegInf"
| "num_sub _ NegInf = PosInf"

text \<open>
  \<^verbatim>\<open>Math.round\<close>: the nearest integer, a tie going towards plus infinity. The result is
  a double without rounding: a double of magnitude \<open>2^52\<close> or more is an integer.
\<close>

fun math_round :: "jsnum \<Rightarrow> jsnum" where
  "math_round (Fin a) = Fin (of_int \<lfloor>a + 1 / 2\<rfloor>)"
| "math_round n = n"

subsection \<open>Strings as numbers\<close>

text \<open>
  White space and line terminators of the language, among the code units below 256:
  tab, line feed, vertical tab, form feed, carriage return, space, no-break space.
\<close>

definition is_ws :: "char \<Rightarrow> bool" where
  "is_ws c = ((of_char c :: nat) \<in> {9, 10, 11, 12, 13, 32, 160})"

definition trim_start :: "string \<Rightarrow> string" where
  "trim_start s = dropWhile is_ws s"

text \<open>\<^verbatim>\<open>String.prototype.trim\<close>.\<close>

definition trim :: "string \<Rightarrow> string" where
  "trim s = rev (dropWhile is_ws (rev (dropWhile is_ws s)))"

definition digit_of :: "nat \<Rightarrow> char \<Rightarrow> nat option" where
  "digit_of base c =
     (let n = (of_char c :: nat);
          v = (if 48 \<le> n \<and> n \<le> 57 then Some (n - 48)
               else if 97 \<le> n \<and> n \<le> 102 then Some (n - 87)
               else if 65 \<le> n \<and> n \<le> 70 then Some (n - 55)
               else None)
      in case v of None \<Rightarrow> None | Some d \<Rightarrow> if d < base then Some d else None)"

definition is_digit :: "nat \<Rightarrow> char \<Rightarrow> bool" where
  "is_digit base c = (digit_of base c \<noteq> None)"

definition digits_value :: "nat \<Rightarrow> string \<Rightarrow> nat" where
  "digits_value base ds = foldl (\<lambda>acc c. base * acc + (case digit_of base c of None \<Rightarrow> 0 | Some d \<Rightarrow> d)) 0 ds"

text \<open>
  The exponent part of a decimal literal, scanned after mantissa \<open>m\<close>: \<^verbatim>\<open>e\<close> or
  \<^verbatim>\<open>E\<close>, an optional sign, and at least one digit. When it is not there, nothing is
  consumed. The result is the value and the rest of the input.
\<close>

definition scan_exponent :: "rat \<Rightarrow> string \<Rightarrow> rat \<times> string" where
  "scan_exponent m s =
     (case s of
        [] \<Rightarrow> (m, s)
      | c # r \<Rightarrow>
          if c = CHR ''e'' \<or> c = CHR ''E'' then
            (let neg = (r \<noteq> [] \<and> hd r = CHR ''-'');
                 r' = (if r \<noteq> [] \<and> (hd r = CHR ''-'' \<or> hd r = CHR ''+'') then tl r else r);
                 ds = takeWhile (is_digit 10) r'
             in if ds = [] then (m, s)
                else ((if neg then m / fast_pow 10 (digits_value 10 ds)
                      else m * fast_pow 10 (digits_value 10 ds)),
                      dropWhile (is_digit 10) r'))
          else (m, s))"

text \<open>
  The longest prefix that is an unsigned decimal literal (\<^verbatim>\<open>Infinity\<close>, or digits
  with an optional fraction and exponent, a digit being required before or after the
  point), with its value, rounded once, and the rest of the input.
\<close>

definition scan_unsigned :: "string \<Rightarrow> (jsnum \<times> string) option" where
  "scan_unsigned s =
     (if take 8 s = ''Infinity'' then Some (PosInf, drop 8 s)
      else
        (let ip = takeWhile (is_digit 10) s;
             r1 = dropWhile (is_digit 10) s
         in if r1 \<noteq> [] \<and> hd r1 = CHR ''.'' then
              (let fp = takeWhile (is_digit 10) (tl r1);
                   r2 = dropWhile (is_digit 10) (tl r1)
               in if ip = [] \<and> fp = [] then None
                  else
                    (let m = of_nat (digits_value 10 (ip @ fp)) / fast_pow 10 (length fp);
                         (v, r3) = scan_exponent m r2
                     in Some (fl v, r3)))
            else if ip = [] then None
            else (let (v, r3) = scan_exponent (of_nat (digits_value 10 ip)) r1
                  in Some (fl v, r3))))"

fun num_neg :: "jsnum \<Rightarrow> jsnum" where
  "num_neg NaN = NaN"
| "num_neg NegInf = PosInf"
| "num_neg PosInf = NegInf"
| "num_neg (Fin a) = Fin (- a)"

text \<open>A decimal literal with an optional sign.\<close>

definition scan_signed :: "string \<Rightarrow> (jsnum \<times> string) option" where
  "scan_signed s =
     (case s of
        [] \<Rightarrow> None
      | c # r \<Rightarrow>
          if c = CHR ''-'' then map_option (\<lambda>(v, r'). (num_neg v, r')) (scan_unsigned r)
          else if c = CHR ''+'' then scan_unsigned r
          else scan_unsigned s)"

text \<open>
  \<^verbatim>\<open>parseFloat\<close> on a string: leading white space is dropped and the longest prefix
  that is a signed decimal literal gives the value; \<open>NaN\<close> when there is none.
\<close>

definition parse_float_str :: "string \<Rightarrow> jsnum" where
  "parse_float_str s =
     (case scan_signed (trim_start s) of None \<Rightarrow> NaN | Some (v, _) \<Rightarrow> v)"

text \<open>An unsigned integer literal in base 2, 8 or 16, after its two-character prefix.\<close>

definition radix_literal :: "nat \<Rightarrow> string \<Rightarrow> jsnum" where
  "radix_literal base ds =
     (if ds \<noteq> [] \<and> list_all (is_digit base) ds then fl (of_nat (digits_value base ds))
      else NaN)"

text \<open>
  \<^verbatim>\<open>Number\<close> on a string: the trimmed string is empty (zero), a binary, octal or
  hexadecimal integer literal, or a signed decimal literal that is the whole string;
  anything else is \<open>NaN\<close>.
\<close>

definition str_to_number :: "string \<Rightarrow> jsnum" where
  "str_to_number s =
     (let t = trim s in
      if t = [] then Fin 0
      else if take 2 t = ''0x'' \<or> take 2 t = ''0X'' then radix_literal 16 (drop 2 t)
      else if take 2 t = ''0o'' \<or> take 2 t = ''0O'' then radix_literal 8 (drop 2 t)
      else if take 2 t = ''0b'' \<or> take 2 t = ''0B'' then radix_literal 2 (drop 2 t)
      else (case scan_signed t of
              Some (v, []) \<Rightarrow> v
            | _ \<Rightarrow> NaN))"

subsection \<open>Coercions and tests on values\<close>

text \<open>
  \<^verbatim>\<open>Number(v)\<close>, the coercion behind \<^verbatim>\<open>isNaN\<close>, \<^verbatim>\<open>Math.abs\<close> and the arithmetic
  operators. An array is coerced through its string, the strings of its elements
  joined by commas with \<^verbatim>\<open>null\<close> and \<^verbatim>\<open>undefined\<close> empty: the empty array is zero,
  an array of one element is the number of that element's string, and a string with a
  comma is no number.
\<close>

fun toNumber :: "jsval \<Rightarrow> jsnum" where
  "toNumber JUndefined = NaN"
| "toNumber JNull = Fin 0"
| "toNumber (JBool b) = (if b then Fin 1 else Fin 0)"
| "toNumber (JNum n) = n"
| "toNumber (JStr s) = str_to_number s"
| "toNumber (JObj _) = NaN"
| "toNumber (JArr []) = Fin 0"
| "toNumber (JArr [JUndefined]) = Fin 0"
| "toNumber (JArr [JNull]) = Fin 0"
| "toNumber (JArr [JBool b]) = NaN"
| "toNumber (JArr [JNum n]) = n"
| "toNumber (JArr [JStr s]) = str_to_number s"
| "toNumber (JArr [JObj fs]) = NaN"
| "toNumber (JArr [JArr xs]) = toNumber (JArr xs)"
| "toNumber (JArr (x # y # zs)) = NaN"

text \<open>The global \<^verbatim>\<open>isNaN(v)\<close>.\<close>

definition isNaN :: "jsval \<Rightarrow> bool" where
  "isNaN v = (toNumber v = NaN)"

text \<open>
  \<^verbatim>\<open>parseFloat(v)\<close>, which parses \<^verbatim>\<open>String(v)\<close>; so \<^verbatim>\<open>parseFloat(String(v))\<close> is the
  same value. The string of a Number parses back to that Number; the strings of
  \<^verbatim>\<open>undefined\<close>, \<^verbatim>\<open>null\<close>, a boolean and a plain object (\<^verbatim>\<open>[object Object]\<close>) start with
  no decimal literal. The string of an array starts with the string of its first
  element, and a comma ends every literal.
\<close>

fun parseFloat :: "jsval \<Rightarrow> jsnum" where
  "parseFloat (JNum n) = n"
| "parseFloat (JStr s) = parse_float_str s"
| "parseFloat (JArr (JNum n # xs)) = n"
| "parseFloat (JArr (JStr s # xs)) = parse_float_str s"
| "parseFloat (JArr (JArr ys # xs)) = parseFloat (JArr ys)"
| "parseFloat _ = NaN"

text \<open>Truthiness, as tested by \<^verbatim>\<open>!v\<close> and \<^verbatim>\<open>v && ...\<close>.\<close>

fun truthy :: "jsval \<Rightarrow> bool" where
  "truthy JUndefined = False"
| "truthy JNull = False"
| "truthy (JBool b) = b"
| "truthy (JNum n) = (n \<noteq> NaN \<and> n \<noteq> Fin 0)"
| "truthy (JStr s) = (s \<noteq> [])"
| "truthy (JObj _) = True"
| "truthy (JArr _) = True"

text \<open>lodash \<^verbatim>\<open>_.isNumber\<close> and \<^verbatim>\<open>_.isNil\<close>.\<close>

fun isNumber :: "jsval \<Rightarrow> bool" where
  "isNumber (JNum _) = True"
| "isNumber _ = False"

fun isNil :: "jsval \<Rightarrow> bool" where
  "isNil JUndefined = True"
| "isNil JNull = True"
| "isNil _ = False"

text \<open>
  lodash \<^verbatim>\<open>_.has(v, key)\<close>: \<open>key\<close> is an own property of \<open>v\<close>. The own properties of a
  string are its indices and \<^verbatim>\<open>length\<close>; the source asks for \<^verbatim>\<open>timeout\<close> only.
\<close>

fun has :: "jsval \<Rightarrow> string \<Rightarrow> bool" where
  "has (JObj fs) key = (map_of fs key \<noteq> None)"
| "has _ key = False"

text \<open>
  Reading a property, \<^verbatim>\<open>v.key\<close>, of a value that is neither \<^verbatim>\<open>undefined\<close> nor
  \<^verbatim>\<open>null\<close>: a missing property reads as \<^verbatim>\<open>undefined\<close>. No property that the
  source reads is one that a string, a number or a boolean inherits.
\<close>

fun get_prop :: "jsval \<Rightarrow> string \<Rightarrow> jsval" where
  "get_prop (JObj fs) key = (case map_of fs key of None \<Rightarrow> JUndefined | Some v \<Rightarrow> v)"
| "get_prop _ key = JUndefined"

text \<open>
  \<^verbatim>\<open>util.hasValue\<close> of the support library: a Number has a value unless it is \<open>NaN\<close>,
  anything else unless it is \<^verbatim>\<open>undefined\<close> or \<^verbatim>\<open>null\<close>.
\<close>

definition hasValue :: "jsval \<Rightarrow> bool" where
  "hasValue v = (if isNumber v then v \<noteq> JNum NaN else \<not> isNil v)"

text \<open>\<^verbatim>\<open>a || b\<close>.\<close>

definition js_or :: "jsval \<Rightarrow> jsval \<Rightarrow> jsval" where
  "js_or a b = (if truthy a then a else b)"

text \<open>\<open>contains s v\<close>: \<^verbatim>\<open>s.indexOf(v) > -1\<close> on strings.\<close>

fun contains :: "string \<Rightarrow> string \<Rightarrow> bool" where
  "contains [] v = (v = [])"
| "contains (c # s) v = (take (length v) (c # s) = v \<or> contains s v)"

text \<open>
  lodash \<^verbatim>\<open>_.includes(collection, v)\<close> for a string \<open>v\<close>: a substring test on a string,
  a search among the property values of an object or the elements of an array, and
  false on the other values,
  which have no elements.
\<close>

fun lodash_includes :: "jsval \<Rightarrow> string \<Rightarrow> bool" where
  "lodash_includes (JStr s) v = contains s v"
| "lodash_includes (JObj fs) v = (JStr v \<in> snd ` set fs)"
| "lodash_includes (JArr xs) v = (JStr v \<in> set xs)"
| "lodash_includes _ v = False"

section \<open>The driver and its collaborators\<close>

text \<open>
  The commands are methods of the driver and reach everything outside this file
  through it: the proxy to the remote automation endpoint (\<^verbatim>\<open>proxyCommand\<close>), the
  atoms of the web context (\<^verbatim>\<open>executeAtom\<close>), a local process (\<^verbatim>\<open>exec\<close>) and the
  time service of a real device (\<^verbatim>\<open>utilities.getDeviceTime\<close>). A collaborator call
  is a value of type \<open>call\<close>; the driver answers it with a value or fails, and keeps
  the list of the calls issued so far. The state of the collaborators does not change
  while the commands below run: the answer depends on the call only.
  Writing to the log has no part in any result and is left out.
\<close>

datatype call =
    ProxyCommand string string "jsval option" "bool option"
  | ExecuteAtom string "jsval list"
  | Exec string "string list"
  | GetDeviceTime jsval

type_synonym failure = string

record driver =
  isWebContext :: bool
  isRealDevice :: bool
  udid :: jsval
  remote :: "call \<Rightarrow> failure + jsval"
  issued :: "call list"

text \<open>The argument errors of this file, by the message they carry.\<close>

datatype invalid_argument =
    NotAValidNumber jsval
  | ButtonNameMandatory
  | DurationNotANumber
  | TextMandatory

datatype error =
    InvalidArgumentError invalid_argument
  | NotYetImplementedError
  | TypeError
  | RemoteCommandFailure failure

type_synonym 'a command = "driver \<Rightarrow> (error + 'a) \<times> driver"

definition result :: "'a \<Rightarrow> 'a command" where
  "result v d = (Inr v, d)"

definition throw :: "error \<Rightarrow> 'a command" where
  "throw e d = (Inl e, d)"

text \<open>\<^verbatim>\<open>const v = await m; ...\<close>: an error of \<open>m\<close> ends the command.\<close>

definition andThen :: "'a command \<Rightarrow> ('a \<Rightarrow> 'b command) \<Rightarrow> 'b command" where
  "andThen m f d = (case m d of (Inl e, d') \<Rightarrow> (Inl e, d') | (Inr v, d') \<Rightarrow> f v d')"

text \<open>A collaborator call: it is recorded, and its failure is thrown unchanged.\<close>

definition perform :: "call \<Rightarrow> jsval command" where
  "perform c d =
     ((case remote d c of Inl f \<Rightarrow> Inl (RemoteCommandFailure f) | Inr v \<Rightarrow> Inr v),
      d\<lparr>issued := issued d @ [c]\<rparr>)"

definition proxyCommand :: "string \<Rightarrow> string \<Rightarrow> jsval option \<Rightarrow> bool option \<Rightarrow> jsval command" where
  "proxyCommand url method body isSessionCommand = perform (ProxyCommand url method body isSessionCommand)"

definition executeAtom :: "string \<Rightarrow> jsval list \<Rightarrow> jsval command" where
  "executeAtom atom args = perform (ExecuteAtom atom args)"

definition exec :: "string \<Rightarrow> string list \<Rightarrow> jsval command" where
  "exec cmd args = perform (Exec cmd args)"

definition utilities_getDeviceTime :: "jsval \<Rightarrow> jsval command" where
  "utilities_getDeviceTime u = perform (GetDeviceTime u)"

text \<open>
  \<^verbatim>\<open>v.key\<close> and \<^verbatim>\<open>const {key} = v\<close>: a \<^verbatim>\<open>TypeError\<close> on \<^verbatim>\<open>undefined\<close> and \<^verbatim>\<open>null\<close>.
\<close>

definition field :: "jsval \<Rightarrow> string \<Rightarrow> jsval command" where
  "field v key = (if isNil v then throw TypeError else result (get_prop v key))"

section \<open>The commands\<close>

subsection \<open>background\<close>

definition homescreen :: string where
  "homescreen = ''/wda/homescreen''"

definition deactivateApp :: string where
  "deactivateApp = ''/wda/deactivateApp''"

text \<open>
  The closure \<^verbatim>\<open>selectEndpoint\<close> assigns the variables \<^verbatim>\<open>endpoint\<close> and \<^verbatim>\<open>params\<close>
  of \<^verbatim>\<open>background\<close>; here it takes their values and returns the new ones. When the
  argument has a value and is not numeric, no branch assigns.
\<close>

definition selectEndpoint :: "jsval \<Rightarrow> string option \<times> jsval \<Rightarrow> string option \<times> jsval" where
  "selectEndpoint timeoutSeconds vars =
     (if \<not> hasValue timeoutSeconds then (Some homescreen, snd vars)
      else if \<not> isNaN timeoutSeconds then
        (let duration = parseFloat timeoutSeconds in
         if num_le (Fin 0) duration then (Some deactivateApp, JObj [(''duration'', JNum duration)])
         else (Some homescreen, snd vars))
      else vars)"

definition background :: "jsval \<Rightarrow> jsval command" where
  "background seconds d =
     (let vars = (None, JObj []);
          (endpoint, params) =
            (if truthy seconds \<and> \<not> isNumber seconds \<and> has seconds ''timeout'' then
               (let timeout = get_prop seconds ''timeout'' in
                selectEndpoint
                  (if isNaN (JNum (toNumber timeout)) then timeout
                   else JNum (num_div (parseFloat timeout) (Fin 1000)))
                  vars)
             else selectEndpoint seconds vars)
      in case endpoint of
           None \<Rightarrow> throw (InvalidArgumentError (NotAValidNumber seconds)) d
         | Some e \<Rightarrow>
             if e = [] then throw (InvalidArgumentError (NotAValidNumber seconds)) d
             else proxyCommand e ''POST'' (Some params) (Some (e \<noteq> homescreen)) d)"

subsection \<open>Window and viewport geometry\<close>

definition getWindowSizeWeb :: "jsval command" where
  "getWindowSizeWeb = executeAtom ''get_window_size'' []"

definition getWindowSizeNative :: "jsval command" where
  "getWindowSizeNative = proxyCommand ''/window/size'' ''GET'' None None"

text \<open>The parameter defaults to \<^verbatim>\<open>'current'\<close> when the argument is \<^verbatim>\<open>undefined\<close>.\<close>

definition getWindowSize :: "jsval \<Rightarrow> jsval command" where
  "getWindowSize arg d =
     (let windowHandle = (if arg = JUndefined then JStr ''current'' else arg) in
      if windowHandle \<noteq> JStr ''current'' then throw NotYetImplementedError d
      else if \<not> isWebContext d then getWindowSizeNative d
      else getWindowSizeWeb d)"

definition getWindowRect :: "jsval command" where
  "getWindowRect =
     andThen (getWindowSize JUndefined) (\<lambda>size.
     andThen (field size ''width'') (\<lambda>width.
     andThen (field size ''height'') (\<lambda>height.
       result (JObj [(''width'', width), (''height'', height),
                     (''x'', JNum (Fin 0)), (''y'', JNum (Fin 0))]))))"

definition getScreenInfo :: "jsval command" where
  "getScreenInfo = proxyCommand ''/wda/screen'' ''GET'' None None"

definition getStatusBarHeight :: "jsval command" where
  "getStatusBarHeight =
     andThen getScreenInfo (\<lambda>info.
     andThen (field info ''statusBarSize'') (\<lambda>statusBarSize.
       field statusBarSize ''height''))"

definition getDevicePixelRatio :: "jsval command" where
  "getDevicePixelRatio =
     andThen getScreenInfo (\<lambda>info. field info ''scale'')"

definition getViewportRect :: "jsval command" where
  "getViewportRect =
     andThen getDevicePixelRatio (\<lambda>scale.
     andThen getStatusBarHeight (\<lambda>h.
       (let statusBarHeight = math_round (num_mul (toNumber h) (toNumber scale)) in
        andThen (getWindowSize JUndefined) (\<lambda>windowSize.
        andThen (field windowSize ''width'') (\<lambda>width.
        andThen (field windowSize ''height'') (\<lambda>height.
          result (JObj [(''left'', JNum (Fin 0)),
                        (''top'', JNum statusBarHeight),
                        (''width'', JNum (num_mul (toNumber width) (toNumber scale))),
                        (''height'', JNum (num_sub (num_mul (toNumber height) (toNumber scale))
                                                   statusBarHeight))])))))))"

subsection \<open>Buttons and Siri\<close>

definition mobilePressButton :: "jsval \<Rightarrow> jsval \<Rightarrow> jsval command" where
  "mobilePressButton name durationSeconds d =
     (if \<not> truthy name then throw (InvalidArgumentError ButtonNameMandatory) d
      else if \<not> isNil durationSeconds \<and> \<not> isNumber durationSeconds then
        throw (InvalidArgumentError DurationNotANumber) d
      else proxyCommand ''/wda/pressButton'' ''POST''
             (Some (JObj [(''name'', name), (''duration'', durationSeconds)])) None d)"

definition mobileSiriCommand :: "jsval \<Rightarrow> jsval command" where
  "mobileSiriCommand txt d =
     (if \<not> truthy txt then throw (InvalidArgumentError TextMandatory) d
      else proxyCommand ''/wda/siri/activate'' ''POST'' (Some (JObj [(''text'', txt)])) None d)"

subsection \<open>Device time\<close>

text \<open>
  The date library (moment, with its time-zone extension) is not part of the
  repository. The commands take its operations as a parameter: \<open>m_utc s f\<close> is
  \<^verbatim>\<open>moment.utc(s, f)\<close>, \<open>m_unix_utc t\<close> is \<^verbatim>\<open>moment.unix(t).utc()\<close>, \<open>m_tzm\<close> reads
  the private property \<^verbatim>\<open>_tzm\<close>, and \<open>m_isValid\<close>, \<open>m_utcOffset\<close>, \<open>m_tz\<close> and
  \<open>m_format\<close> are the methods of those names. \<^verbatim>\<open>utcOffset\<close> and \<^verbatim>\<open>tz\<close> do not
  always return a moment (without an argument they are getters) and \<^verbatim>\<open>tz\<close> can throw;
  then the \<^verbatim>\<open>.format\<close> that the source chains to them throws, which is the \<open>Inl\<close> case.
\<close>

record 'm moment_lib =
  m_utc :: "string \<Rightarrow> string \<Rightarrow> 'm"
  m_isValid :: "'m \<Rightarrow> bool"
  m_tzm :: "'m \<Rightarrow> jsval"
  m_unix_utc :: "jsval \<Rightarrow> 'm"
  m_utcOffset :: "'m \<Rightarrow> jsval \<Rightarrow> error + 'm"
  m_tz :: "'m \<Rightarrow> jsval \<Rightarrow> error + 'm"
  m_format :: "'m \<Rightarrow> string \<Rightarrow> string"

definition MOMENT_FORMAT_ISO8601 :: string where
  "MOMENT_FORMAT_ISO8601 = ''YYYY-MM-DDTHH:mm:ssZ''"

text \<open>\<^verbatim>\<open>.stdout.trim()\<close> on the result of \<^verbatim>\<open>exec\<close>; only a string has the method.\<close>

definition stdout_trim :: "jsval \<Rightarrow> string command" where
  "stdout_trim res =
     andThen (field res ''stdout'') (\<lambda>out.
       case out of JStr s \<Rightarrow> result (trim s) | _ \<Rightarrow> throw TypeError)"

text \<open>\<^verbatim>\<open>return x.format(format)\<close>, where \<open>x\<close> is what \<^verbatim>\<open>utcOffset\<close> or \<^verbatim>\<open>tz\<close> gave.\<close>

definition return_formatted :: "'m moment_lib \<Rightarrow> error + 'm \<Rightarrow> string \<Rightarrow> string command" where
  "return_formatted lib x format =
     (case x of Inl e \<Rightarrow> throw e | Inr m \<Rightarrow> result (m_format lib m format))"

text \<open>
  The format is \<open>None\<close> when the argument is omitted, and the default is taken. On a
  simulator the time is the host's, read with \<^verbatim>\<open>date\<close>; on a real device it is the
  reading \<^verbatim>\<open>{timestamp, utcOffset, timeZone}\<close> of the device.
\<close>

definition getDeviceTime :: "'m moment_lib \<Rightarrow> string option \<Rightarrow> string command" where
  "getDeviceTime lib arg d =
     (let format = (case arg of None \<Rightarrow> MOMENT_FORMAT_ISO8601 | Some f \<Rightarrow> f) in
      if \<not> isRealDevice d then
        (let cmd = ''date'';
             args = [''+%Y-%m-%dT%H:%M:%S%z''];
             inputFormat = ''YYYY-MM-DDTHH:mm:ssZZ''
         in andThen (exec cmd args) (\<lambda>res.
            andThen (stdout_trim res) (\<lambda>stdout.
              (let parsedTimestamp = m_utc lib stdout inputFormat in
               if \<not> m_isValid lib parsedTimestamp then result stdout
               else return_formatted lib
                      (m_utcOffset lib parsedTimestamp
                         (js_or (m_tzm lib parsedTimestamp) (JNum (Fin 0))))
                      format))) d)
      else
        andThen (utilities_getDeviceTime (udid d)) (\<lambda>reading.
        andThen (field reading ''timestamp'') (\<lambda>timestamp.
        andThen (field reading ''utcOffset'') (\<lambda>utcOffset.
        andThen (field reading ''timeZone'') (\<lambda>timeZone.
          (let utc = m_unix_utc lib timestamp in
           if num_le (num_abs (toNumber utcOffset)) (Fin (12 * 60)) then
             return_formatted lib (m_utcOffset lib utc utcOffset) format
           else if lodash_includes timeZone ''/'' then
             return_formatted lib (m_tz lib utc timeZone) format
           else if num_le (num_abs (toNumber timeZone)) (Fin (12 * 60 * 60)) then
             return_formatted lib
               (m_utcOffset lib utc (JNum (num_div (toNumber timeZone) (Fin 60)))) format
           else result (m_format lib utc format)))))) d)"

definition mobileGetDeviceTime :: "'m moment_lib \<Rightarrow> string option \<Rightarrow> string command" where
  "mobileGetDeviceTime lib arg d =
     (let format = (case arg of None \<Rightarrow> MOMENT_FORMAT_ISO8601 | Some f \<Rightarrow> f) in
      getDeviceTime lib (Some format) d)"

subsection \<open>The date library\<close>

text \<open>
  What the library does with the calls above, as its documentation and source
  (\<^verbatim>\<open>getSetOffset\<close>, and \<^verbatim>\<open>fn.tz\<close> of the time-zone extension) have it. A moment is an
  instant in milliseconds, the offset \<^verbatim>\<open>_offset\<close> in minutes under which it is shown,
  and a zone when one is set. Parsing by pattern, the time-zone data, the parsing of
  an offset string and the rendering by pattern stay parameters.
\<close>

record moment =
  valid :: bool
  instant :: rat
  offset :: jsval
  zone :: "string option"
  tzm :: jsval

record externals =
  parse_utc :: "string \<Rightarrow> string \<Rightarrow> moment"
  zone_offset :: "string \<Rightarrow> rat \<Rightarrow> rat option"
  offset_from_string :: "string \<Rightarrow> rat option"
  render :: "moment \<Rightarrow> string \<Rightarrow> string"

definition invalid_moment :: moment where
  "invalid_moment =
     \<lparr>valid = False, instant = 0, offset = JNum (Fin 0), zone = None, tzm = JUndefined\<rparr>"

text \<open>
  \<^verbatim>\<open>moment.unix(t).utc()\<close>: the date of \<^verbatim>\<open>t * 1000\<close> milliseconds, cut to an integer,
  valid within the range of a date (\<open>8.64e15\<close> milliseconds either side of the epoch),
  shown under offset zero.
\<close>

definition unix_utc :: "jsval \<Rightarrow> moment" where
  "unix_utc t =
     (case num_mul (toNumber t) (Fin 1000) of
        Fin ms \<Rightarrow>
          if \<bar>ms\<bar> \<le> 8640000000000000 then
            \<lparr>valid = True, instant = of_int (if 0 \<le> ms then \<lfloor>ms\<rfloor> else \<lceil>ms\<rceil>),
             offset = JNum (Fin 0), zone = None, tzm = JUndefined\<rparr>
          else invalid_moment
      | _ \<Rightarrow> invalid_moment)"

text \<open>\<^verbatim>\<open>a < b\<close> on Numbers.\<close>

definition num_lt :: "jsnum \<Rightarrow> jsnum \<Rightarrow> bool" where
  "num_lt a b = (num_le a b \<and> a \<noteq> b)"

text \<open>
  \<^verbatim>\<open>m.utcOffset(input)\<close>. Without an input (\<^verbatim>\<open>null\<close>, \<^verbatim>\<open>undefined\<close>) it is the getter
  and returns a number, which has no \<^verbatim>\<open>format\<close>. An invalid moment is returned as it
  is. A string is parsed as an offset, and the moment is returned as it is when the
  string holds none. Any other input of magnitude below 16 counts hours and is
  multiplied by 60; the input, so scaled, becomes the offset in minutes, and the zone
  is dropped. The instant does not change.
\<close>

definition utcOffset_set :: "externals \<Rightarrow> moment \<Rightarrow> jsval \<Rightarrow> error + moment" where
  "utcOffset_set X m input =
     (if isNil input then Inl TypeError
      else if \<not> valid m then Inr m
      else
        (case input of
           JStr s \<Rightarrow>
             (case offset_from_string X s of
                None \<Rightarrow> Inr m
              | Some k \<Rightarrow> Inr (m\<lparr>offset := JNum (Fin k), zone := None\<rparr>))
         | _ \<Rightarrow>
             Inr (m\<lparr>offset :=
                        (if num_lt (num_abs (toNumber input)) (Fin 16)
                         then JNum (num_mul (toNumber input) (Fin 60)) else input),
                      zone := None\<rparr>)))"

text \<open>
  \<^verbatim>\<open>m.tz(name)\<close>. An empty name makes it the getter, whose result has no
  \<^verbatim>\<open>format\<close>, and a name that is no string is refused with an error. A zone of the
  time-zone data is set, with its offset at the instant; for an unknown name the
  library logs an error and returns the moment as it is.
\<close>

definition tz_set :: "externals \<Rightarrow> moment \<Rightarrow> jsval \<Rightarrow> error + moment" where
  "tz_set X m name =
     (case name of
        JStr z \<Rightarrow>
          if z = [] then Inl TypeError
          else
            (case zone_offset X z (instant m) of
               None \<Rightarrow> Inr m
             | Some k \<Rightarrow> Inr (m\<lparr>offset := JNum (Fin k), zone := Some z\<rparr>))
      | _ \<Rightarrow> Inl TypeError)"

definition moment_js :: "externals \<Rightarrow> moment moment_lib" where
  "moment_js X =
     \<lparr>m_utc = parse_utc X, m_isValid = valid, m_tzm = tzm, m_unix_utc = unix_utc,
      m_utcOffset = utcOffset_set X, m_tz = tz_set X, m_format = render X\<rparr>"

section \<open>Notions of the specification\<close>

text \<open>
  The timeout candidate of the specification: the \<^verbatim>\<open>timeout\<close> field of an object
  that has one, the raw input otherwise.
\<close>

definition timeoutCandidate :: "jsval \<Rightarrow> jsval" where
  "timeoutCandidate seconds =
     (if has seconds ''timeout'' then get_prop seconds ''timeout'' else seconds)"

text \<open>
  The inputs the documentation of \<^verbatim>\<open>background\<close> lists: nothing, a number, or an
  object whose \<^verbatim>\<open>timeout\<close> field holds a number or nothing.
\<close>

definition documentedInput :: "jsval \<Rightarrow> bool" where
  "documentedInput seconds =
     (isNil seconds \<or> isNumber seconds \<or>
      (has seconds ''timeout'' \<and>
       (isNil (get_prop seconds ''timeout'') \<or> isNumber (get_prop seconds ''timeout''))))"


section \<open>Concrete collaborators\<close>

text \<open>
  A device to run the commands on: a real device in the native context, with a screen
  of scale 2 and a status bar 20 high, a window of 400 by 800, the clock reading
  \<^verbatim>\<open>{timestamp: 1700000000, utcOffset: 900, timeZone: 'Europe/Berlin'}\<close>, and a
  \<^verbatim>\<open>date\<close> command that prints no date.
\<close>

definition sample_remote :: "call \<Rightarrow> failure + jsval" where
  "sample_remote c =
     (case c of
        ProxyCommand url method body flag \<Rightarrow>
          if url = ''/wda/screen'' then
            Inr (JObj [(''scale'', JNum (Fin 2)),
                       (''statusBarSize'', JObj [(''width'', JNum (Fin 400)),
                                                 (''height'', JNum (Fin 20))])])
          else if url = ''/window/size'' then
            Inr (JObj [(''width'', JNum (Fin 400)), (''height'', JNum (Fin 800))])
          else Inr JNull
      | ExecuteAtom atom args \<Rightarrow>
          Inr (JObj [(''width'', JNum (Fin 400)), (''height'', JNum (Fin 800))])
      | Exec cmd args \<Rightarrow>
          Inr (JObj [(''stdout'', JStr ''date: illegal time format\<newline>''),
                     (''stderr'', JStr []), (''code'', JNum (Fin 0))])
      | GetDeviceTime u \<Rightarrow>
          Inr (JObj [(''timestamp'', JNum (Fin 1700000000)),
                     (''utcOffset'', JNum (Fin 900)),
                     (''timeZone'', JStr ''Europe/Berlin'')]))"

definition sample_driver :: driver where
  "sample_driver =
     \<lparr>isWebContext = False, isRealDevice = True, udid = JStr ''00008030-001A'',
      remote = sample_remote, issued = []\<rparr>"

definition sample_simulator :: driver where
  "sample_simulator = sample_driver\<lparr>isRealDevice := False\<rparr>"

text \<open>
  A second device: scale 3, a window of 390 by 844, and a status bar whose height is
  the double that prints as \<^verbatim>\<open>47.166666666666664\<close>.
\<close>

definition sample_phone :: driver where
  "sample_phone =
     sample_driver\<lparr>remote := (\<lambda>c.
        case c of
          ProxyCommand url method body flag \<Rightarrow>
            if url = ''/wda/screen'' then
              Inr (JObj [(''scale'', JNum (Fin 3)),
                         (''statusBarSize'',
                            JObj [(''width'', JNum (Fin 390)),
                                  (''height'', JNum (Fin (6638118200759637 / 140737488355328)))])])
            else if url = ''/window/size'' then
              Inr (JObj [(''width'', JNum (Fin 390)), (''height'', JNum (Fin 844))])
            else Inr JNull
        | _ \<Rightarrow> sample_remote c)\<rparr>"

text \<open>
  The double that prints as \<^verbatim>\<open>-1e-322\<close>: twenty times the least positive double,
  negated.
\<close>

definition minus_1e_322 :: rat where
  "minus_1e_322 = - (20 / 2 ^ 1074)"

text \<open>The same device with another clock reading.\<close>

definition device_reading :: "jsval \<Rightarrow> jsval \<Rightarrow> jsval \<Rightarrow> driver" where
  "device_reading timestamp utcOffset timeZone =
     sample_driver\<lparr>remote := (\<lambda>c.
        case c of
          GetDeviceTime u \<Rightarrow>
            Inr (JObj [(''timestamp'', timestamp), (''utcOffset'', utcOffset),
                       (''timeZone'', timeZone)])
        | _ \<Rightarrow> sample_remote c)\<rparr>"

text \<open>
  Parameters for the date library: a parser that accepts the strings of the length of
  an ISO-8601 timestamp with a numeric offset, time-zone data that know Berlin in
  winter, no offset strings, and the renderings of the instant 1700000000 under the
  ISO-8601 pattern for a few offsets.
\<close>

definition sample_render :: "moment \<Rightarrow> string \<Rightarrow> string" where
  "sample_render m f =
     (if \<not> valid m then ''Invalid date''
      else if offset m = JNum (Fin 0) then ''2023-11-14T22:13:20+00:00''
      else if offset m = JNum (Fin 5) then ''2023-11-14T22:18:20+00:05''
      else if offset m = JNum (Fin 60) then ''2023-11-14T23:13:20+01:00''
      else if offset m = JNum (Fin 120) then ''2023-11-15T00:13:20+02:00''
      else if offset m = JNum (Fin 300) then ''2023-11-15T03:13:20+05:00''
      else ''unknown'')"

definition sample_externals :: externals where
  "sample_externals =
     \<lparr>parse_utc = (\<lambda>s f. if length s = 24 then unix_utc (JNum (Fin 1700000000))
                          else invalid_moment),
      zone_offset = (\<lambda>z t. if z = ''Europe/Berlin'' then Some 60 else None),
      offset_from_string = (\<lambda>s. None),
      render = sample_render\<rparr>"

definition sample_moment :: "moment moment_lib" where
  "sample_moment = moment_js sample_externals"

section \<open>Facts about the model\<close>

subsection \<open>Rounding\<close>

lemma fast_pow_pos: "0 < b \<Longrightarrow> 0 < fast_pow b n"
proof (induction b n rule: fast_pow.induct)
  case (1 b n)
  show ?case
  proof (cases "n = 0")
    case True
    then show ?thesis by (subst fast_pow.simps) simp
  next
    case False
    with 1 have "0 < fast_pow b (n div 2)" by simp
    with False 1(2) show ?thesis
      by (subst fast_pow.simps) (simp add: Let_def)
  qed
qed

lemma pow2_pos: "0 < pow2 k"
  by (simp add: pow2_def fast_pow_pos)

lemma round_half_even_nonneg: "0 \<le> x \<Longrightarrow> 0 \<le> round_half_even x"
  by (simp add: round_half_even_def Let_def)

lemma fl_not_NaN: "fl q \<noteq> NaN"
  by (simp add: fl_def Let_def)

lemma fl_nonneg: "0 \<le> q \<Longrightarrow> num_le (Fin 0) (fl q)"
proof -
  assume q: "0 \<le> q"
  have "0 \<le> round_half_even (\<bar>q\<bar> / pow2 k)" for k
    using pow2_pos [of k] by (intro round_half_even_nonneg) simp
  then have "0 \<le> rat_of_int (round_half_even (\<bar>q\<bar> / pow2 k)) * pow2 k" for k
    using pow2_pos [of k] by (simp add: less_imp_le)
  with q show ?thesis
    by (simp add: fl_def Let_def)
qed

lemma num_div_1000_NaN: "(num_div x (Fin 1000) = NaN) = (x = NaN)"
  by (cases x) (simp_all add: signed_inf_def fl_not_NaN)

lemma num_div_1000_nonneg: "num_le (Fin 0) x \<Longrightarrow> num_le (Fin 0) (num_div x (Fin 1000))"
  by (cases x) (simp_all add: signed_inf_def fl_nonneg)

text \<open>Doubles that are exact, and the double nearest to \<open>-0.002\<close>.\<close>

lemma fl_5: "fl 5 = Fin 5"
  by code_simp

lemma fl_three_halves: "fl (3 / 2) = Fin (3 / 2)"
  by code_simp

lemma fl_minus_500th: "fl (- (1 / 500)) = Fin (- 1152921504606847 / 576460752303423488)"
  by code_simp

subsection \<open>Underflow\<close>

lemma fast_pow_power: "fast_pow b n = b ^ n"
proof (induction b n rule: fast_pow.induct)
  case (1 b n)
  show ?case
  proof (cases "n = 0")
    case True
    then show ?thesis by (subst fast_pow.simps) simp
  next
    case False
    with 1 have half: "fast_pow b (n div 2) = b ^ (n div 2)" by simp
    show ?thesis
    proof (cases "even n")
      case True
      then obtain k where "n = 2 * k" by (elim evenE)
      with False half show ?thesis
        by (subst fast_pow.simps) (simp add: Let_def power2_eq_square power_mult
            flip: power_mult_distrib)
    next
      case odd: False
      then obtain k where "n = 2 * k + 1" by (elim oddE)
      with False half show ?thesis
        by (subst fast_pow.simps) (simp add: Let_def power2_eq_square power_mult
            flip: power_mult_distrib)
    qed
  qed
qed

lemma bit_length_nonneg: "0 \<le> bit_length n"
  by (induction n rule: bit_length.induct) (subst bit_length.simps, simp)

lemma bit_length_lower: "2 ^ k \<le> n \<Longrightarrow> int k < bit_length n"
proof (induction k arbitrary: n)
  case 0
  then have "bit_length n = 1 + bit_length (n div 2)"
    by (subst bit_length.simps) simp
  with bit_length_nonneg [of "n div 2"] show ?case by simp
next
  case (Suc k)
  then have "2 ^ k \<le> n div 2" by simp
  then have "int k < bit_length (n div 2)" by (rule Suc.IH)
  moreover have "(0::int) < 2 ^ Suc k"
    by simp
  with Suc.prems have "0 < n"
    by linarith
  then have "bit_length n = 1 + bit_length (n div 2)"
    by (subst bit_length.simps) simp
  ultimately show ?case by simp
qed

text \<open>A non-zero value of magnitude below \<open>2^-1075\<close>, half the least double, rounds to zero.\<close>

lemma fl_underflow:
  assumes "q \<noteq> 0" and "\<bar>q\<bar> < 1 / 2 ^ 1075"
  shows "fl q = Fin 0"
proof -
  let ?a = "\<bar>q\<bar>"
  have pos: "0 < ?a" using assms(1) by simp
  have small: "?a < 1"
  proof -
    have "(1::rat) / 2 ^ 1075 \<le> 1" by simp
    with assms(2) show ?thesis by linarith
  qed
  have "2 ^ 1075 < 1 / ?a"
    using pos assms(2) by (simp add: field_simps)
  then have "(2::rat) ^ 1075 < of_int \<lceil>1 / ?a\<rceil>"
    using le_of_int_ceiling [of "1 / ?a"] by linarith
  then have "(2::int) ^ 1075 < \<lceil>1 / ?a\<rceil>"
    by (metis of_int_less_iff of_int_numeral of_int_power)
  then have "2 ^ 1075 \<le> \<lceil>1 / ?a\<rceil> - 1" by simp
  then have "int 1075 < bit_length (\<lceil>1 / ?a\<rceil> - 1)" by (rule bit_length_lower)
  with small have e: "binary_exponent ?a < - 1075"
    by (simp add: binary_exponent_def)
  then have p: "max (binary_exponent ?a - 52) (- 1074) = - 1074" by simp
  have scaled: "?a / pow2 (- 1074) = ?a * 2 ^ 1074"
    by (simp add: pow2_def fast_pow_power)
  have "?a * 2 ^ 1074 < (1 / 2 ^ 1075) * 2 ^ 1074"
    using assms(2) by (intro mult_strict_right_mono) simp_all
  also have "\<dots> = 1 / 2" by simp
  finally have half: "?a * 2 ^ 1074 < 1 / 2" .
  moreover have nonneg: "0 \<le> ?a * 2 ^ 1074" using pos by simp
  ultimately have "\<lfloor>?a * 2 ^ 1074\<rfloor> = 0"
    by (simp add: floor_eq_iff)
  with half have "round_half_even (?a * 2 ^ 1074) = 0"
    by (simp add: round_half_even_def Let_def)
  with e p scaled assms(1) show ?thesis
    by (simp add: fl_def Let_def)
qed

subsection \<open>The commands\<close>

lemma has_timeout_guard:
  "(truthy s \<and> \<not> isNumber s \<and> has s key) = has s key"
  by (cases s) simp_all

lemma endpoints_distinct [simp]:
  "deactivateApp \<noteq> homescreen" "homescreen \<noteq> []" "deactivateApp \<noteq> []"
  by (simp_all add: homescreen_def deactivateApp_def)

text \<open>
  \<^verbatim>\<open>background\<close> in one piece: \<open>a\<close> is the argument it hands to \<^verbatim>\<open>selectEndpoint\<close>, and
  the three outcomes are the two endpoints and the argument error.
\<close>

lemma background_unfold:
  "background s d =
     (let a = (if has s ''timeout'' \<and> toNumber (timeoutCandidate s) \<noteq> NaN
               then JNum (num_div (parseFloat (timeoutCandidate s)) (Fin 1000))
               else timeoutCandidate s)
      in if \<not> hasValue a then proxyCommand homescreen ''POST'' (Some (JObj [])) (Some False) d
         else if toNumber a = NaN then throw (InvalidArgumentError (NotAValidNumber s)) d
         else if num_le (Fin 0) (parseFloat a) then
           proxyCommand deactivateApp ''POST''
             (Some (JObj [(''duration'', JNum (parseFloat a))])) (Some True) d
         else proxyCommand homescreen ''POST'' (Some (JObj [])) (Some False) d)"
  by (simp add: background_def has_timeout_guard timeoutCandidate_def selectEndpoint_def
      isNaN_def Let_def)

lemma hasValue_JNum: "hasValue (JNum x) = (x \<noteq> NaN)"
  by (simp add: hasValue_def)

lemma num_le_not_NaN: "num_le (Fin 0) x \<Longrightarrow> x \<noteq> NaN"
  by (cases x) simp_all

lemma hasValue_numeric: "toNumber v \<noteq> NaN \<Longrightarrow> parseFloat v \<noteq> NaN \<Longrightarrow> hasValue v"
  by (cases v) (simp_all add: hasValue_def)

lemma absent_cases: "\<not> hasValue v \<Longrightarrow> v = JUndefined \<or> v = JNull \<or> v = JNum NaN"
  by (cases v) (simp_all add: hasValue_def)

lemma proxyCommand_fst:
  "fst (proxyCommand url method body flag d) \<noteq> Inl (InvalidArgumentError a)"
  by (simp add: proxyCommand_def perform_def split: sum.splits)

lemma str_abc_not_numeric: "str_to_number ''abc'' = NaN"
  by code_simp

lemma str_soon_not_numeric: "str_to_number ''soon'' = NaN"
  by code_simp

lemma str_one_and_a_half: "str_to_number ''1.5'' = Fin (3 / 2)"
  by code_simp

lemma parse_one_and_a_half: "parse_float_str ''1.5'' = Fin (3 / 2)"
  by code_simp



lemma has_only_objects: "has s key \<Longrightarrow> \<not> isNil s \<and> \<not> isNumber s"
  by (cases s) simp_all

text \<open>On the documented inputs one of the two endpoints is determined.\<close>

lemma documented_inputs_resolve:
  assumes "documentedInput s"
  shows "\<exists>e params. (e = homescreen \<or> e = deactivateApp) \<and>
           background s d = proxyCommand e ''POST'' (Some params) (Some (e \<noteq> homescreen)) d \<and>
           fst (background s d) \<noteq> Inl (InvalidArgumentError (NotAValidNumber s))"
proof -
  define a where "a = (if has s ''timeout'' \<and> toNumber (timeoutCandidate s) \<noteq> NaN
                       then JNum (num_div (parseFloat (timeoutCandidate s)) (Fin 1000))
                       else timeoutCandidate s)"
  have bg: "background s d =
      (if \<not> hasValue a then proxyCommand homescreen ''POST'' (Some (JObj [])) (Some False) d
       else if toNumber a = NaN then throw (InvalidArgumentError (NotAValidNumber s)) d
       else if num_le (Fin 0) (parseFloat a) then
         proxyCommand deactivateApp ''POST''
           (Some (JObj [(''duration'', JNum (parseFloat a))])) (Some True) d
       else proxyCommand homescreen ''POST'' (Some (JObj [])) (Some False) d)"
    by (simp add: background_unfold a_def Let_def)
  from assms have c: "isNil (timeoutCandidate s) \<or> isNumber (timeoutCandidate s)"
    by (auto simp: documentedInput_def timeoutCandidate_def dest: has_only_objects)
  have "\<not> (hasValue (timeoutCandidate s) \<and> toNumber (timeoutCandidate s) = NaN)"
    using c by (cases "timeoutCandidate s") (simp_all add: hasValue_def)
  then have numeric: "hasValue a \<Longrightarrow> toNumber a \<noteq> NaN"
    by (auto simp: a_def hasValue_JNum split: if_splits)
  show ?thesis
  proof (cases "hasValue a \<and> num_le (Fin 0) (parseFloat a)")
    case True
    with numeric have "background s d =
        proxyCommand deactivateApp ''POST''
          (Some (JObj [(''duration'', JNum (parseFloat a))])) (Some True) d"
      by (simp add: bg)
    then show ?thesis
      by (intro exI [of _ deactivateApp] exI [of _ "JObj [(''duration'', JNum (parseFloat a))]"])
        (simp add: proxyCommand_fst)
  next
    case False
    with numeric have "background s d =
        proxyCommand homescreen ''POST'' (Some (JObj [])) (Some False) d"
      by (auto simp: bg)
    then show ?thesis
      by (intro exI [of _ homescreen] exI [of _ "JObj []"]) (simp add: proxyCommand_fst)
  qed
qed

lemma perform_unfold:
  "perform c d =
     (case remote d c of
        Inl f \<Rightarrow> (Inl (RemoteCommandFailure f), d\<lparr>issued := issued d @ [c]\<rparr>)
      | Inr v \<Rightarrow> (Inr v, d\<lparr>issued := issued d @ [c]\<rparr>))"
  by (simp add: perform_def split: sum.splits)

text \<open>The window sz of the current window: one call, chosen by the context.\<close>

lemma getWindowSize_current:
  "getWindowSize JUndefined d =
     perform (if isWebContext d then ExecuteAtom ''get_window_size'' []
              else ProxyCommand ''/window/size'' ''GET'' None None) d"
  by (simp add: getWindowSize_def getWindowSizeNative_def getWindowSizeWeb_def
      proxyCommand_def executeAtom_def)

lemma getWindowSize_again:
  "fst (getWindowSize JUndefined (d\<lparr>issued := l\<rparr>)) = fst (getWindowSize JUndefined d)"
  by (simp add: getWindowSize_current perform_def)

lemma getWindowSize_snd:
  "\<exists>l. snd (getWindowSize JUndefined d) = d\<lparr>issued := l\<rparr>"
  by (cases "isWebContext d") (simp_all add: getWindowSize_current perform_def exI)

lemma getWindowRect_unfold:
  "getWindowRect d =
     (case getWindowSize JUndefined d of
        (Inl e, d') \<Rightarrow> (Inl e, d')
      | (Inr sz, d') \<Rightarrow>
          if isNil sz then (Inl TypeError, d')
          else (Inr (JObj [(''width'', get_prop sz ''width''),
                           (''height'', get_prop sz ''height''),
                           (''x'', JNum (Fin 0)), (''y'', JNum (Fin 0))]), d'))"
  by (simp add: getWindowRect_def andThen_def field_def throw_def result_def
      split: prod.splits sum.splits)

lemma getWindowRect_fst:
  "fst (getWindowRect d) =
     (case fst (getWindowSize JUndefined d) of
        Inl e \<Rightarrow> Inl e
      | Inr sz \<Rightarrow>
          if isNil sz then Inl TypeError
          else Inr (JObj [(''width'', get_prop sz ''width''),
                          (''height'', get_prop sz ''height''),
                          (''x'', JNum (Fin 0)), (''y'', JNum (Fin 0))]))"
  by (simp add: getWindowRect_unfold split: prod.splits sum.splits)

lemma getWindowRect_snd: "snd (getWindowRect d) = snd (getWindowSize JUndefined d)"
  by (simp add: getWindowRect_unfold split: prod.splits sum.splits)

text \<open>The two readers of the screen information: one call each.\<close>

lemma getDevicePixelRatio_unfold:
  "getDevicePixelRatio d =
     (case perform (ProxyCommand ''/wda/screen'' ''GET'' None None) d of
        (Inl e, d') \<Rightarrow> (Inl e, d')
      | (Inr info, d') \<Rightarrow>
          if isNil info then (Inl TypeError, d') else (Inr (get_prop info ''scale''), d'))"
  by (simp add: getDevicePixelRatio_def getScreenInfo_def proxyCommand_def andThen_def
      field_def throw_def result_def split: prod.splits sum.splits)

lemma getStatusBarHeight_unfold:
  "getStatusBarHeight d =
     (case perform (ProxyCommand ''/wda/screen'' ''GET'' None None) d of
        (Inl e, d') \<Rightarrow> (Inl e, d')
      | (Inr info, d') \<Rightarrow>
          if isNil info \<or> isNil (get_prop info ''statusBarSize'') then (Inl TypeError, d')
          else (Inr (get_prop (get_prop info ''statusBarSize'') ''height''), d'))"
  by (simp add: getStatusBarHeight_def getScreenInfo_def proxyCommand_def andThen_def
      field_def throw_def result_def split: prod.splits sum.splits)

lemma getDevicePixelRatio_snd:
  "snd (getDevicePixelRatio d) =
     d\<lparr>issued := issued d @ [ProxyCommand ''/wda/screen'' ''GET'' None None]\<rparr>"
  by (simp add: getDevicePixelRatio_unfold perform_unfold split: sum.splits)

lemma getStatusBarHeight_snd:
  "snd (getStatusBarHeight d) =
     d\<lparr>issued := issued d @ [ProxyCommand ''/wda/screen'' ''GET'' None None]\<rparr>"
  by (simp add: getStatusBarHeight_unfold perform_unfold split: sum.splits)

lemma getStatusBarHeight_again:
  "fst (getStatusBarHeight (d\<lparr>issued := l\<rparr>)) = fst (getStatusBarHeight d)"
  by (simp add: getStatusBarHeight_unfold perform_unfold split: sum.splits)

text \<open>
  \<^verbatim>\<open>getViewportRect\<close> when its three collaborators return: the later ones run in the
  state the earlier ones leave.
\<close>

lemma getViewportRect_run:
  assumes "getDevicePixelRatio d = (Inr scale, d1)"
    and "getStatusBarHeight d1 = (Inr h, d2)"
    and "getWindowSize JUndefined d2 = (Inr sz, d3)"
    and "\<not> isNil sz"
  shows "getViewportRect d =
     (Inr (JObj [(''left'', JNum (Fin 0)),
                 (''top'', JNum (math_round (num_mul (toNumber h) (toNumber scale)))),
                 (''width'', JNum (num_mul (toNumber (get_prop sz ''width'')) (toNumber scale))),
                 (''height'',
                    JNum (num_sub (num_mul (toNumber (get_prop sz ''height'')) (toNumber scale))
                            (math_round (num_mul (toNumber h) (toNumber scale)))))]), d3)"
  using assms
  by (simp add: getViewportRect_def andThen_def field_def result_def Let_def)

lemma contains_char: "contains s [c] = (c \<in> set s)"
  by (induction s) auto

lemma includes_slash: "lodash_includes (JStr z) ''/'' = (CHR ''/'' \<in> set z)"
  by (simp add: contains_char)



lemma fl_300: "fl 300 = Fin 300"
  by code_simp

lemma fl_sample_instant: "fl 1700000000000 = Fin 1700000000000"
  by code_simp

lemma sample_instant:
  "unix_utc (JNum (Fin 1700000000)) =
     \<lparr>valid = True, instant = 1700000000000, offset = JNum (Fin 0), zone = None,
      tzm = JUndefined\<rparr>"
  by (simp add: unix_utc_def fl_sample_instant)



lemma sample_device_time:
  "getDeviceTime sample_moment None sample_driver =
     (Inr ''2023-11-14T23:13:20+01:00'',
      sample_driver\<lparr>issued := [GetDeviceTime (JStr ''00008030-001A'')]\<rparr>)"
  by (simp add: getDeviceTime_def utilities_getDeviceTime_def perform_unfold andThen_def
      field_def result_def return_formatted_def sample_driver_def sample_remote_def
      sample_moment_def moment_js_def sample_externals_def sample_render_def tz_set_def
      sample_instant MOMENT_FORMAT_ISO8601_def)



subsection \<open>Inputs at the edges\<close>

text \<open>
  A negative timeout whose thousandth underflows gives the duration zero, which is not
  negative: \<^verbatim>\<open>background({timeout: -1e-322})\<close> posts to \<^verbatim>\<open>/wda/deactivateApp\<close>.
\<close>

lemma thousandth_underflow: "num_div (Fin minus_1e_322) (Fin 1000) = Fin 0"
proof -
  have "fl (minus_1e_322 / 1000) = Fin 0"
    by (rule fl_underflow) (simp_all add: minus_1e_322_def)
  then show ?thesis by simp
qed

lemma background_tiny_negative_timeout:
  "background (JObj [(''timeout'', JNum (Fin minus_1e_322))]) d =
     proxyCommand deactivateApp ''POST'' (Some (JObj [(''duration'', JNum (Fin 0))]))
       (Some True) d"
proof -
  have "minus_1e_322 < 0" by (simp add: minus_1e_322_def)
  then show ?thesis
    using thousandth_underflow
    by (simp add: background_unfold timeoutCandidate_def hasValue_def del: num_div.simps)
qed

text \<open>The empty array is numeric after coercion and parses to no value.\<close>

lemma background_empty_array:
  "background (JArr []) d = proxyCommand homescreen ''POST'' (Some (JObj [])) (Some False) d"
  by (simp add: background_unfold timeoutCandidate_def hasValue_def)

text \<open>
  A reading whose \<^verbatim>\<open>utcOffset\<close> is \<^verbatim>\<open>null\<close> takes the first case of the cascade, where
  \<^verbatim>\<open>utcOffset(null)\<close> is the getter: its number has no \<^verbatim>\<open>format\<close>, and the command throws.
\<close>

lemma getDeviceTime_null_offset:
  "fst (getDeviceTime sample_moment None
          (device_reading (JNum (Fin 1700000000)) JNull (JStr ''UTC''))) = Inl TypeError"
  by code_simp

section \<open>Backgrounding policy\<close>

text \<open>
  C1, as the specification states it, fails: the string \<^verbatim>\<open>'abc'\<close> is its own timeout
  candidate and is not numeric after coercion, and \<^verbatim>\<open>background\<close> rejects it with
  the argument error instead of selecting the home screen; nothing is sent.
\<close>

theorem background_non_numeric_counterexample:
  "toNumber (timeoutCandidate (JStr ''abc'')) = NaN \<and>
   background (JStr ''abc'') sample_driver =
     (Inl (InvalidArgumentError (NotAValidNumber (JStr ''abc''))), sample_driver)"
  by (simp add: background_unfold timeoutCandidate_def str_abc_not_numeric hasValue_def
      throw_def)

text \<open>
  C1, amended. When the timeout candidate is absent (\<^verbatim>\<open>undefined\<close>, \<^verbatim>\<open>null\<close> or
  \<open>NaN\<close>), or is numeric after coercion and the duration it gives (its parsed value,
  divided by 1000 in double arithmetic when it is the \<^verbatim>\<open>timeout\<close> field of an object)
  is negative or no value, \<^verbatim>\<open>background\<close> posts to \<^verbatim>\<open>/wda/homescreen\<close> with empty
  parameters and raises nothing of its own. A negative value so small that its
  thousandth rounds to zero is not in this case: zero is not negative. When the candidate is present and not numeric after coercion,
  \<^verbatim>\<open>background\<close> raises the argument error and issues no call.
\<close>

theorem background_never_restore:
  "(\<not> hasValue (timeoutCandidate s) \<or>
    (toNumber (timeoutCandidate s) \<noteq> NaN \<and>
     \<not> num_le (Fin 0)
         (if has s ''timeout'' then num_div (parseFloat (timeoutCandidate s)) (Fin 1000)
          else parseFloat (timeoutCandidate s)))
      \<longrightarrow> background s d = proxyCommand homescreen ''POST'' (Some (JObj [])) (Some False) d) \<and>
   (hasValue (timeoutCandidate s) \<and> toNumber (timeoutCandidate s) = NaN
      \<longrightarrow> background s d = (Inl (InvalidArgumentError (NotAValidNumber s)), d))"
proof (intro conjI impI)
  assume "\<not> hasValue (timeoutCandidate s) \<or>
    (toNumber (timeoutCandidate s) \<noteq> NaN \<and>
     \<not> num_le (Fin 0)
         (if has s ''timeout'' then num_div (parseFloat (timeoutCandidate s)) (Fin 1000)
          else parseFloat (timeoutCandidate s)))"
  then show "background s d = proxyCommand homescreen ''POST'' (Some (JObj [])) (Some False) d"
  proof
    assume "\<not> hasValue (timeoutCandidate s)"
    then have "timeoutCandidate s = JUndefined \<or> timeoutCandidate s = JNull
        \<or> timeoutCandidate s = JNum NaN"
      by (rule absent_cases)
    then show ?thesis
      by (auto simp: background_unfold hasValue_def)
  next
    assume neg: "toNumber (timeoutCandidate s) \<noteq> NaN \<and>
      \<not> num_le (Fin 0)
          (if has s ''timeout'' then num_div (parseFloat (timeoutCandidate s)) (Fin 1000)
           else parseFloat (timeoutCandidate s))"
    then show ?thesis
      by (cases "has s ''timeout''") (simp_all add: background_unfold Let_def hasValue_JNum)
  qed
next
  assume "hasValue (timeoutCandidate s) \<and> toNumber (timeoutCandidate s) = NaN"
  then show "background s d = (Inl (InvalidArgumentError (NotAValidNumber s)), d)"
    by (simp add: background_unfold throw_def)
qed

theorem background_never_restore_witness:
  "toNumber (timeoutCandidate (JObj [(''timeout'', JNum (Fin (- 2)))])) \<noteq> NaN \<and>
   \<not> num_le (Fin 0)
       (num_div (parseFloat (timeoutCandidate (JObj [(''timeout'', JNum (Fin (- 2)))])))
          (Fin 1000)) \<and>
   background (JObj [(''timeout'', JNum (Fin (- 2)))]) sample_driver =
     proxyCommand homescreen ''POST'' (Some (JObj [])) (Some False) sample_driver \<and>
   hasValue (timeoutCandidate (JObj [(''timeout'', JStr ''soon'')])) \<and>
   toNumber (timeoutCandidate (JObj [(''timeout'', JStr ''soon'')])) = NaN \<and>
   background (JObj [(''timeout'', JStr ''soon'')]) sample_driver =
     (Inl (InvalidArgumentError (NotAValidNumber (JObj [(''timeout'', JStr ''soon'')]))),
      sample_driver)"
  using background_never_restore [of "JObj [(''timeout'', JNum (Fin (- 2)))]" sample_driver]
    background_never_restore [of "JObj [(''timeout'', JStr ''soon'')]" sample_driver]
  by (simp add: timeoutCandidate_def hasValue_def str_soon_not_numeric
      fl_minus_500th)

text \<open>
  C2, as the specification states it, fails: the timeout candidate of
  \<^verbatim>\<open>{timeout: 5000}\<close> is the number 5000, which is not negative, and the duration
  sent is 5, not 5000.
\<close>

theorem background_duration_counterexample:
  "timeoutCandidate (JObj [(''timeout'', JNum (Fin 5000))]) = JNum (Fin 5000) \<and>
   num_le (Fin 0) (toNumber (JNum (Fin 5000))) \<and>
   background (JObj [(''timeout'', JNum (Fin 5000))]) sample_driver =
     proxyCommand deactivateApp ''POST'' (Some (JObj [(''duration'', JNum (Fin 5))]))
       (Some True) sample_driver \<and>
   Fin 5 \<noteq> Fin 5000"
  by (simp add: background_unfold timeoutCandidate_def hasValue_def fl_5)

text \<open>
  C2, amended. When the timeout candidate is numeric after coercion and parses to a
  value that is not negative, \<^verbatim>\<open>background\<close> posts to \<^verbatim>\<open>/wda/deactivateApp\<close> with
  the duration equal to that value when the candidate is the raw input, and to that
  value divided by 1000 when the candidate is the \<^verbatim>\<open>timeout\<close> field of an object.
\<close>

theorem background_duration:
  assumes "toNumber (timeoutCandidate s) \<noteq> NaN"
    and "num_le (Fin 0) (parseFloat (timeoutCandidate s))"
  shows "background s d =
     proxyCommand deactivateApp ''POST''
       (Some (JObj [(''duration'',
          JNum (if has s ''timeout'' then num_div (parseFloat (timeoutCandidate s)) (Fin 1000)
                else parseFloat (timeoutCandidate s)))]))
       (Some True) d"
proof (cases "has s ''timeout''")
  case True
  with assms show ?thesis
    by (simp add: background_unfold Let_def hasValue_JNum num_div_1000_NaN
        num_div_1000_nonneg num_le_not_NaN)
next
  case False
  from assms have "hasValue (timeoutCandidate s)"
    by (simp add: hasValue_numeric num_le_not_NaN)
  with False assms show ?thesis
    by (simp add: background_unfold Let_def)
qed

theorem background_duration_witness:
  "toNumber (timeoutCandidate (JStr ''1.5'')) \<noteq> NaN \<and>
   num_le (Fin 0) (parseFloat (timeoutCandidate (JStr ''1.5''))) \<and>
   background (JStr ''1.5'') sample_driver =
     proxyCommand deactivateApp ''POST'' (Some (JObj [(''duration'', JNum (Fin (3 / 2)))]))
       (Some True) sample_driver \<and>
   background (JObj [(''timeout'', JNum (Fin 1500))]) sample_driver =
     proxyCommand deactivateApp ''POST'' (Some (JObj [(''duration'', JNum (Fin (3 / 2)))]))
       (Some True) sample_driver"
  using background_duration [of "JStr ''1.5''" sample_driver]
    background_duration [of "JObj [(''timeout'', JNum (Fin 1500))]" sample_driver]
  by (simp add: timeoutCandidate_def str_one_and_a_half parse_one_and_a_half
      fl_three_halves)

text \<open>
  C3, as the specification states it, fails: an object without a \<^verbatim>\<open>timeout\<close> field is
  its own timeout candidate, is not numeric, and reaches the argument error.
\<close>

theorem background_defensive_branch_counterexample:
  "background (JObj []) sample_driver =
     (Inl (InvalidArgumentError (NotAValidNumber (JObj []))), sample_driver)"
  by (simp add: background_unfold timeoutCandidate_def hasValue_def throw_def)

text \<open>
  C3, amended. On the inputs the documentation lists (nothing, a number, or an object
  whose \<^verbatim>\<open>timeout\<close> field is there and holds a number or nothing), \<^verbatim>\<open>background\<close>
  determines one of the two endpoints, posts to it, and never raises the argument
  error. A plain object (one that is no array) without a \<^verbatim>\<open>timeout\<close> field reaches
  the argument error, and nothing is sent.
\<close>

theorem background_documented_inputs:
  "(documentedInput s \<longrightarrow>
      (\<exists>e params. (e = homescreen \<or> e = deactivateApp) \<and>
         background s d = proxyCommand e ''POST'' (Some params) (Some (e \<noteq> homescreen)) d \<and>
         fst (background s d) \<noteq> Inl (InvalidArgumentError (NotAValidNumber s)))) \<and>
   (\<not> has (JObj fs) ''timeout'' \<longrightarrow>
      background (JObj fs) d = (Inl (InvalidArgumentError (NotAValidNumber (JObj fs))), d))"
proof (intro conjI impI)
  assume "documentedInput s"
  then show "\<exists>e params. (e = homescreen \<or> e = deactivateApp) \<and>
      background s d = proxyCommand e ''POST'' (Some params) (Some (e \<noteq> homescreen)) d \<and>
      fst (background s d) \<noteq> Inl (InvalidArgumentError (NotAValidNumber s))"
    by (rule documented_inputs_resolve)
next
  assume "\<not> has (JObj fs) ''timeout''"
  then have "timeoutCandidate (JObj fs) = JObj fs"
    by (simp add: timeoutCandidate_def)
  then show "background (JObj fs) d =
      (Inl (InvalidArgumentError (NotAValidNumber (JObj fs))), d)"
    by (simp add: background_unfold hasValue_def throw_def)
qed

theorem background_documented_inputs_witness:
  "documentedInput (JObj [(''timeout'', JNull)]) \<and>
   (\<exists>e params. (e = homescreen \<or> e = deactivateApp) \<and>
      background (JObj [(''timeout'', JNull)]) sample_driver =
        proxyCommand e ''POST'' (Some params) (Some (e \<noteq> homescreen)) sample_driver \<and>
      fst (background (JObj [(''timeout'', JNull)]) sample_driver) \<noteq>
        Inl (InvalidArgumentError (NotAValidNumber (JObj [(''timeout'', JNull)])))) \<and>
   \<not> has (JObj [(''seconds'', JNum (Fin 5))]) ''timeout'' \<and>
   background (JObj [(''seconds'', JNum (Fin 5))]) sample_driver =
     (Inl (InvalidArgumentError (NotAValidNumber (JObj [(''seconds'', JNum (Fin 5))]))),
      sample_driver)"
  using background_documented_inputs
    [of "JObj [(''timeout'', JNull)]" sample_driver "[(''seconds'', JNum (Fin 5))]"]
  by (simp add: documentedInput_def)



section \<open>Window and viewport geometry\<close>

text \<open>
  C8. The collaborators answer a call in the same way each time, and a second call of
  \<^verbatim>\<open>getWindowRect\<close>, made in the state the first one leaves, returns what the first
  returned. When the window-sz collaborator returns a sz, that result is the
  object of its width and height with \<^verbatim>\<open>x\<close> and \<^verbatim>\<open>y\<close> zero.
\<close>

theorem getWindowRect_idempotent:
  "fst (getWindowRect (snd (getWindowRect d))) = fst (getWindowRect d) \<and>
   (fst (getWindowSize JUndefined d) = Inr sz \<and> \<not> isNil sz \<longrightarrow>
      fst (getWindowRect d) =
        Inr (JObj [(''width'', get_prop sz ''width''), (''height'', get_prop sz ''height''),
                   (''x'', JNum (Fin 0)), (''y'', JNum (Fin 0))]))"
proof
  obtain l where "snd (getWindowSize JUndefined d) = d\<lparr>issued := l\<rparr>"
    using getWindowSize_snd by blast
  then have "fst (getWindowSize JUndefined (snd (getWindowRect d))) =
      fst (getWindowSize JUndefined d)"
    by (simp add: getWindowRect_snd getWindowSize_again)
  then show "fst (getWindowRect (snd (getWindowRect d))) = fst (getWindowRect d)"
    by (simp add: getWindowRect_fst)
next
  show "fst (getWindowSize JUndefined d) = Inr sz \<and> \<not> isNil sz \<longrightarrow>
      fst (getWindowRect d) =
        Inr (JObj [(''width'', get_prop sz ''width''), (''height'', get_prop sz ''height''),
                   (''x'', JNum (Fin 0)), (''y'', JNum (Fin 0))])"
    by (simp add: getWindowRect_fst)
qed

theorem getWindowRect_idempotent_witness:
  "fst (getWindowSize JUndefined sample_driver) =
     Inr (JObj [(''width'', JNum (Fin 400)), (''height'', JNum (Fin 800))]) \<and>
   fst (getWindowRect sample_driver) =
     Inr (JObj [(''width'', JNum (Fin 400)), (''height'', JNum (Fin 800)),
                (''x'', JNum (Fin 0)), (''y'', JNum (Fin 0))]) \<and>
   fst (getWindowRect (snd (getWindowRect sample_driver))) =
     Inr (JObj [(''width'', JNum (Fin 400)), (''height'', JNum (Fin 800)),
                (''x'', JNum (Fin 0)), (''y'', JNum (Fin 0))])"
proof -
  have wsize: "fst (getWindowSize JUndefined sample_driver) =
      Inr (JObj [(''width'', JNum (Fin 400)), (''height'', JNum (Fin 800))])"
    by (simp add: getWindowSize_current perform_def sample_driver_def sample_remote_def)
  show ?thesis
    using wsize
      getWindowRect_idempotent [of sample_driver
        "JObj [(''width'', JNum (Fin 400)), (''height'', JNum (Fin 800))]"]
    by simp
qed

text \<open>
  C5. For every scale, status-bar height and window size that the collaborators
  supply, \<^verbatim>\<open>getViewportRect\<close> returns the rectangle with \<^verbatim>\<open>left\<close> zero, \<^verbatim>\<open>top\<close> the
  rounded product of status-bar height and scale, \<^verbatim>\<open>width\<close> the window width times the
  scale, and \<^verbatim>\<open>height\<close> the window height times the scale less \<^verbatim>\<open>top\<close>, the products
  and the difference being those of double arithmetic. When the product of status-bar
  height and scale is the finite value \<open>p\<close>, \<^verbatim>\<open>top\<close> is the integer
  \<open>\<lfloor>p + 1/2\<rfloor>\<close>. With scale 2, status-bar height 20 and a window of 400 by 800 the
  result is \<^verbatim>\<open>{left: 0, top: 40, width: 800, height: 1560}\<close>; with scale 3, status-bar
  height \<^verbatim>\<open>47.166666666666664\<close> and a window of 390 by 844 the product is 141.5 and
  the result is \<^verbatim>\<open>{left: 0, top: 142, width: 1170, height: 2390}\<close>.
\<close>

theorem getViewportRect_value:
  assumes "fst (getDevicePixelRatio d) = Inr (JNum scale)"
    and "fst (getStatusBarHeight d) = Inr (JNum statusBarHeight)"
    and "fst (getWindowSize JUndefined d) = Inr sz"
    and "get_prop sz ''width'' = JNum width"
    and "get_prop sz ''height'' = JNum height"
  shows "fst (getViewportRect d) =
     Inr (JObj [(''left'', JNum (Fin 0)),
                (''top'', JNum (math_round (num_mul statusBarHeight scale))),
                (''width'', JNum (num_mul width scale)),
                (''height'', JNum (num_sub (num_mul height scale)
                                           (math_round (num_mul statusBarHeight scale))))]) \<and>
     (num_mul statusBarHeight scale = Fin p \<longrightarrow>
        fst (getViewportRect d) =
          Inr (JObj [(''left'', JNum (Fin 0)),
                     (''top'', JNum (Fin (of_int \<lfloor>p + 1 / 2\<rfloor>))),
                     (''width'', JNum (num_mul width scale)),
                     (''height'', JNum (num_sub (num_mul height scale)
                                                (Fin (of_int \<lfloor>p + 1 / 2\<rfloor>))))])) \<and>
     (scale = Fin 2 \<and> statusBarHeight = Fin 20 \<and> width = Fin 400 \<and> height = Fin 800 \<longrightarrow>
        fst (getViewportRect d) =
          Inr (JObj [(''left'', JNum (Fin 0)), (''top'', JNum (Fin 40)),
                     (''width'', JNum (Fin 800)), (''height'', JNum (Fin 1560))])) \<and>
     (scale = Fin 3 \<and> statusBarHeight = Fin (6638118200759637 / 140737488355328) \<and>
      width = Fin 390 \<and> height = Fin 844 \<longrightarrow>
        fst (getViewportRect d) =
          Inr (JObj [(''left'', JNum (Fin 0)), (''top'', JNum (Fin 142)),
                     (''width'', JNum (Fin 1170)), (''height'', JNum (Fin 2390))]))"
proof -
  let ?d1 = "snd (getDevicePixelRatio d)"
  let ?d2 = "snd (getStatusBarHeight ?d1)"
  let ?d3 = "snd (getWindowSize JUndefined ?d2)"
  have not_nil: "\<not> isNil sz"
    using assms(4) by (cases sz) simp_all
  have r1: "getDevicePixelRatio d = (Inr (JNum scale), ?d1)"
    using assms(1) by (simp add: prod_eq_iff)
  have "fst (getStatusBarHeight ?d1) = fst (getStatusBarHeight d)"
    by (simp add: getDevicePixelRatio_snd getStatusBarHeight_again)
  then have r2: "getStatusBarHeight ?d1 = (Inr (JNum statusBarHeight), ?d2)"
    using assms(2) by (simp add: prod_eq_iff)
  have "fst (getWindowSize JUndefined ?d2) = fst (getWindowSize JUndefined d)"
    by (simp add: getDevicePixelRatio_snd getStatusBarHeight_snd getWindowSize_again)
  then have r3: "getWindowSize JUndefined ?d2 = (Inr sz, ?d3)"
    using assms(3) by (simp add: prod_eq_iff)
  have general: "fst (getViewportRect d) =
     Inr (JObj [(''left'', JNum (Fin 0)),
                (''top'', JNum (math_round (num_mul statusBarHeight scale))),
                (''width'', JNum (num_mul width scale)),
                (''height'', JNum (num_sub (num_mul height scale)
                                           (math_round (num_mul statusBarHeight scale))))])"
    using getViewportRect_run [OF r1 r2 r3 not_nil] assms(4,5) by (simp del: num_mul.simps)
  have a: "math_round (num_mul (Fin 20) (Fin 2)) = Fin 40"
    "num_mul (Fin 400) (Fin 2) = Fin 800" "num_mul (Fin 800) (Fin 2) = Fin 1600"
    "num_sub (Fin 1600) (Fin 40) = Fin 1560"
    by code_simp+
  have b: "math_round (num_mul (Fin (6638118200759637 / 140737488355328)) (Fin 3)) = Fin 142"
    "num_mul (Fin 390) (Fin 3) = Fin 1170" "num_mul (Fin 844) (Fin 3) = Fin 2532"
    "num_sub (Fin 2532) (Fin 142) = Fin 2390"
    by code_simp+
  show ?thesis
  proof (intro conjI impI)
    show "fst (getViewportRect d) =
       Inr (JObj [(''left'', JNum (Fin 0)),
                  (''top'', JNum (math_round (num_mul statusBarHeight scale))),
                  (''width'', JNum (num_mul width scale)),
                  (''height'', JNum (num_sub (num_mul height scale)
                                             (math_round (num_mul statusBarHeight scale))))])"
      by (rule general)
  next
    assume "num_mul statusBarHeight scale = Fin p"
    then show "fst (getViewportRect d) =
        Inr (JObj [(''left'', JNum (Fin 0)),
                   (''top'', JNum (Fin (of_int \<lfloor>p + 1 / 2\<rfloor>))),
                   (''width'', JNum (num_mul width scale)),
                   (''height'', JNum (num_sub (num_mul height scale)
                                              (Fin (of_int \<lfloor>p + 1 / 2\<rfloor>))))])"
      by (simp only: general math_round.simps)
  next
    assume "scale = Fin 2 \<and> statusBarHeight = Fin 20 \<and> width = Fin 400 \<and> height = Fin 800"
    then have "scale = Fin 2" "statusBarHeight = Fin 20" "width = Fin 400" "height = Fin 800"
      by simp_all
    then show "fst (getViewportRect d) =
        Inr (JObj [(''left'', JNum (Fin 0)), (''top'', JNum (Fin 40)),
                   (''width'', JNum (Fin 800)), (''height'', JNum (Fin 1560))])"
      by (simp only: general a)
  next
    assume "scale = Fin 3 \<and> statusBarHeight = Fin (6638118200759637 / 140737488355328) \<and>
      width = Fin 390 \<and> height = Fin 844"
    then have "scale = Fin 3" "statusBarHeight = Fin (6638118200759637 / 140737488355328)"
      "width = Fin 390" "height = Fin 844"
      by simp_all
    then show "fst (getViewportRect d) =
        Inr (JObj [(''left'', JNum (Fin 0)), (''top'', JNum (Fin 142)),
                   (''width'', JNum (Fin 1170)), (''height'', JNum (Fin 2390))])"
      by (simp only: general b)
  qed
qed

theorem getViewportRect_value_witness:
  "fst (getViewportRect sample_driver) =
     Inr (JObj [(''left'', JNum (Fin 0)), (''top'', JNum (Fin 40)),
                (''width'', JNum (Fin 800)), (''height'', JNum (Fin 1560))]) \<and>
   fst (getViewportRect sample_phone) =
     Inr (JObj [(''left'', JNum (Fin 0)), (''top'', JNum (Fin 142)),
                (''width'', JNum (Fin 1170)), (''height'', JNum (Fin 2390))])"
proof -
  have scale: "fst (getDevicePixelRatio sample_driver) = Inr (JNum (Fin 2))"
    by (simp add: getDevicePixelRatio_unfold perform_unfold sample_driver_def sample_remote_def)
  have bar: "fst (getStatusBarHeight sample_driver) = Inr (JNum (Fin 20))"
    by (simp add: getStatusBarHeight_unfold perform_unfold sample_driver_def sample_remote_def)
  have window: "fst (getWindowSize JUndefined sample_driver) =
      Inr (JObj [(''width'', JNum (Fin 400)), (''height'', JNum (Fin 800))])"
    by (simp add: getWindowSize_current perform_def sample_driver_def sample_remote_def)
  have scale3: "fst (getDevicePixelRatio sample_phone) = Inr (JNum (Fin 3))"
    by (simp add: getDevicePixelRatio_unfold perform_unfold sample_phone_def sample_driver_def)
  have bar3: "fst (getStatusBarHeight sample_phone) =
      Inr (JNum (Fin (6638118200759637 / 140737488355328)))"
    by (simp add: getStatusBarHeight_unfold perform_unfold sample_phone_def sample_driver_def)
  have window3: "fst (getWindowSize JUndefined sample_phone) =
      Inr (JObj [(''width'', JNum (Fin 390)), (''height'', JNum (Fin 844))])"
    by (simp add: getWindowSize_current perform_def sample_phone_def sample_driver_def)
  have first: "fst (getViewportRect sample_driver) =
      Inr (JObj [(''left'', JNum (Fin 0)), (''top'', JNum (Fin 40)),
                 (''width'', JNum (Fin 800)), (''height'', JNum (Fin 1560))])"
    using getViewportRect_value [OF scale bar window, of "Fin 400" "Fin 800" 0,
        THEN conjunct2, THEN conjunct2, THEN conjunct1]
    by simp
  have second: "fst (getViewportRect sample_phone) =
      Inr (JObj [(''left'', JNum (Fin 0)), (''top'', JNum (Fin 142)),
                 (''width'', JNum (Fin 1170)), (''height'', JNum (Fin 2390))])"
    using getViewportRect_value [OF scale3 bar3 window3, of "Fin 390" "Fin 844" 0,
        THEN conjunct2, THEN conjunct2, THEN conjunct2]
    by simp
  from first second show ?thesis by simp
qed

section \<open>Argument validation\<close>

text \<open>
  C7. \<^verbatim>\<open>mobilePressButton\<close> raises the argument error when the button name is empty
  (falsy) or when a duration is given that is not a number, and \<^verbatim>\<open>mobileSiriCommand\<close>
  raises it when the text is empty (falsy). In each case the driver is left as it was:
  no call has been issued.
\<close>

theorem validation_fails_fast:
  "(\<not> truthy name \<or> (\<not> isNil durationSeconds \<and> \<not> isNumber durationSeconds) \<longrightarrow>
      mobilePressButton name durationSeconds d =
        (Inl (InvalidArgumentError
               (if \<not> truthy name then ButtonNameMandatory else DurationNotANumber)), d)) \<and>
   (\<not> truthy txt \<longrightarrow>
      mobileSiriCommand txt d = (Inl (InvalidArgumentError TextMandatory), d))"
proof (intro conjI impI)
  assume bad: "\<not> truthy name \<or> (\<not> isNil durationSeconds \<and> \<not> isNumber durationSeconds)"
  show "mobilePressButton name durationSeconds d =
      (Inl (InvalidArgumentError
             (if \<not> truthy name then ButtonNameMandatory else DurationNotANumber)), d)"
  proof (cases "truthy name")
    case False
    then show ?thesis
      by (simp add: mobilePressButton_def throw_def)
  next
    case True
    with bad have "\<not> isNil durationSeconds \<and> \<not> isNumber durationSeconds"
      by simp
    with True show ?thesis
      by (simp add: mobilePressButton_def throw_def)
  qed
next
  assume "\<not> truthy txt"
  then show "mobileSiriCommand txt d = (Inl (InvalidArgumentError TextMandatory), d)"
    by (simp add: mobileSiriCommand_def throw_def)
qed

theorem validation_fails_fast_witness:
  "mobilePressButton (JStr []) (JNum (Fin 1)) sample_driver =
     (Inl (InvalidArgumentError ButtonNameMandatory), sample_driver) \<and>
   mobilePressButton (JStr ''home'') (JStr ''1'') sample_driver =
     (Inl (InvalidArgumentError DurationNotANumber), sample_driver) \<and>
   mobileSiriCommand (JStr []) sample_driver =
     (Inl (InvalidArgumentError TextMandatory), sample_driver)"
  using validation_fails_fast [of "JStr []" "JNum (Fin 1)" sample_driver "JStr []"]
    validation_fails_fast [of "JStr ''home''" "JStr ''1''" sample_driver "JStr []"]
  by simp

section \<open>Device time\<close>

text \<open>
  C10. \<^verbatim>\<open>mobileGetDeviceTime\<close> returns what \<^verbatim>\<open>getDeviceTime\<close> returns for the same
  format, also when the format is omitted: both take the same default.
\<close>

theorem mobileGetDeviceTime_is_getDeviceTime:
  "mobileGetDeviceTime lib arg d = getDeviceTime lib arg d"
  by (cases arg) (simp_all add: mobileGetDeviceTime_def getDeviceTime_def)

theorem mobileGetDeviceTime_is_getDeviceTime_witness:
  "mobileGetDeviceTime sample_moment None sample_driver =
     (Inr ''2023-11-14T23:13:20+01:00'',
      sample_driver\<lparr>issued := [GetDeviceTime (JStr ''00008030-001A'')]\<rparr>)"
  using mobileGetDeviceTime_is_getDeviceTime [of sample_moment None sample_driver]
  by (simp add: sample_device_time)

text \<open>
  C6. On a simulator, when the output of the \<^verbatim>\<open>date\<close> command does not parse against
  the input pattern, \<^verbatim>\<open>getDeviceTime\<close> returns the trimmed output as it is, and
  raises nothing.
\<close>

theorem getDeviceTime_unparsable_output:
  assumes "\<not> isRealDevice d"
    and "remote d (Exec ''date'' [''+%Y-%m-%dT%H:%M:%S%z'']) = Inr res"
    and "get_prop res ''stdout'' = JStr out"
    and "\<not> m_isValid lib (m_utc lib (trim out) ''YYYY-MM-DDTHH:mm:ssZZ'')"
  shows "fst (getDeviceTime lib arg d) = Inr (trim out)"
proof -
  have "\<not> isNil res"
    using assms(3) by (cases res) simp_all
  with assms show ?thesis
    by (simp add: getDeviceTime_def exec_def perform_unfold andThen_def stdout_trim_def
        field_def result_def Let_def)
qed

theorem getDeviceTime_unparsable_output_witness:
  "\<not> isRealDevice sample_simulator \<and>
   \<not> m_isValid sample_moment
       (m_utc sample_moment (trim ''date: illegal time format\<newline>'') ''YYYY-MM-DDTHH:mm:ssZZ'') \<and>
   fst (getDeviceTime sample_moment None sample_simulator) = Inr ''date: illegal time format''"
proof -
  have sim: "\<not> isRealDevice sample_simulator"
    by (simp add: sample_simulator_def)
  have out: "remote sample_simulator (Exec ''date'' [''+%Y-%m-%dT%H:%M:%S%z'']) =
      Inr (JObj [(''stdout'', JStr ''date: illegal time format\<newline>''),
                 (''stderr'', JStr []), (''code'', JNum (Fin 0))])"
    by (simp add: sample_simulator_def sample_driver_def sample_remote_def)
  have field: "get_prop (JObj [(''stdout'', JStr ''date: illegal time format\<newline>''),
                 (''stderr'', JStr []), (''code'', JNum (Fin 0))]) ''stdout'' =
      JStr ''date: illegal time format\<newline>''"
    by simp
  have trimmed: "trim ''date: illegal time format\<newline>'' = ''date: illegal time format''"
    by code_simp
  have invalid: "\<not> m_isValid sample_moment
      (m_utc sample_moment (trim ''date: illegal time format\<newline>'') ''YYYY-MM-DDTHH:mm:ssZZ'')"
    by (simp add: trimmed sample_moment_def moment_js_def sample_externals_def
        invalid_moment_def)
  show ?thesis
    using sim invalid
      getDeviceTime_unparsable_output [OF sim out field invalid, of None]
    by (simp add: trimmed)
qed




end
